theory Spec2Isabelle
  imports Main
begin

section \<open>Python strings\<close>

text \<open>
  A Python \<open>str\<close> is modelled as a \<^typ>\<open>string\<close>; one \<^typ>\<open>char\<close> stands for one code
  point (those below U+0100), so \<^const>\<open>length\<close> and \<^const>\<open>take\<close> count what Python's
  \<open>len\<close> and slicing count.
\<close>

definition nl :: char where
  "nl = CHR 0x0A"

definition sq :: char where
  "sq = CHR 0x27"

text \<open>\<open>str.isspace\<close> on one code point: U+0009..U+000D, U+001C..U+0020, U+0085, U+00A0.\<close>

definition isspace :: "char \<Rightarrow> bool" where
  "isspace c = (of_char c \<in> set [9, 10, 11, 12, 13, 28, 29, 30, 31, 32, 133, 160 :: nat])"

text \<open>\<open>s.strip()\<close>: whitespace removed at both ends.\<close>

definition py_strip :: "string \<Rightarrow> string" where
  "py_strip s = rev (dropWhile isspace (rev (dropWhile isspace s)))"

text \<open>\<open>s.split(sep)\<close> for a one-character separator: every occurrence cuts, and the
  result always has at least one element (\<open>''.split('\n') == ['']\<close>).\<close>

fun py_split :: "char \<Rightarrow> string \<Rightarrow> string list" where
  "py_split sep [] = [[]]"
| "py_split sep (c # cs) =
     (if c = sep then [] # py_split sep cs
      else (c # hd (py_split sep cs)) # tl (py_split sep cs))"

text \<open>\<open>sub in s\<close> on strings: \<open>sub\<close> occurs as a contiguous run of \<open>s\<close>.\<close>

fun py_in :: "string \<Rightarrow> string \<Rightarrow> bool" where
  "py_in sub [] = (sub = [])"
| "py_in sub (c # cs) = (take (length sub) (c # cs) = sub \<or> py_in sub cs)"

text \<open>\<open>str(n)\<close> for an integer: decimal digits, with a sign when negative.\<close>

fun str_nat :: "nat \<Rightarrow> string" where
  "str_nat n =
     (if n < 10 then [''0123456789'' ! n]
      else str_nat (n div 10) @ [''0123456789'' ! (n mod 10)])"

declare str_nat.simps [simp del]

definition str_int :: "int \<Rightarrow> string" where
  "str_int i = (if i < 0 then CHR ''-'' # str_nat (nat (- i)) else str_nat (nat i))"

section \<open>Exceptions and decoded JSON values\<close>

datatype exn_class =
    KeyError | IndexError | TypeError | AttributeError | ValueError
  | ValidationError | RequestException | JSONDecodeError | GraphRecursionError
  | PlaywrightError | Exception

text \<open>An exception instance: its class and what \<open>str(e)\<close> gives. Every class above
  derives from \<open>Exception\<close>, so \<open>except Exception\<close> catches each of them. The texts of the
  exceptions the interpreter raises itself are those of CPython 3.12.\<close>

datatype py_exn = PyExn (exn_class: exn_class) (exn_str: string)

text \<open>What \<open>json.loads\<close> produces. A float is kept as mantissa and binary exponent.\<close>

datatype json =
    JNull
  | JBool bool
  | JInt int
  | JFloat int int
  | JStr string
  | JArr "json list"
  | JObj "(string \<times> json) list"

fun type_name :: "json \<Rightarrow> string" where
  "type_name JNull = ''NoneType''"
| "type_name (JBool b) = ''bool''"
| "type_name (JInt i) = ''int''"
| "type_name (JFloat m e) = ''float''"
| "type_name (JStr s) = ''str''"
| "type_name (JArr xs) = ''list''"
| "type_name (JObj kvs) = ''dict''"

text \<open>Truth value of an object in an \<open>if\<close>.\<close>

fun json_truth :: "json \<Rightarrow> bool" where
  "json_truth JNull = False"
| "json_truth (JBool b) = b"
| "json_truth (JInt i) = (i \<noteq> 0)"
| "json_truth (JFloat m e) = (m \<noteq> 0)"
| "json_truth (JStr s) = (s \<noteq> [])"
| "json_truth (JArr xs) = (xs \<noteq> [])"
| "json_truth (JObj kvs) = (kvs \<noteq> [])"

definition no_attribute :: "json \<Rightarrow> string \<Rightarrow> py_exn" where
  "no_attribute x a =
     PyExn AttributeError (sq # type_name x @ sq # '' object has no attribute '' @ sq # a @ [sq])"

definition not_subscriptable :: "json \<Rightarrow> py_exn" where
  "not_subscriptable x =
     PyExn TypeError (sq # type_name x @ sq # '' object is not subscriptable'')"

text \<open>\<open>x.get(k, d)\<close>: only a dict has the method.\<close>

fun py_get :: "json \<Rightarrow> string \<Rightarrow> json \<Rightarrow> py_exn + json" where
  "py_get (JObj kvs) k d = Inr (case map_of kvs k of Some v \<Rightarrow> v | None \<Rightarrow> d)"
| "py_get x k d = Inl (no_attribute x ''get'')"

text \<open>\<open>x[0]\<close>.\<close>

fun py_index0 :: "json \<Rightarrow> py_exn + json" where
  "py_index0 (JArr []) = Inl (PyExn IndexError ''list index out of range'')"
| "py_index0 (JArr (v # vs)) = Inr v"
| "py_index0 (JStr []) = Inl (PyExn IndexError ''string index out of range'')"
| "py_index0 (JStr (c # cs)) = Inr (JStr [c])"
| "py_index0 (JObj kvs) = Inl (PyExn KeyError ''0'')"
| "py_index0 x = Inl (not_subscriptable x)"

text \<open>\<open>x[k]\<close> for a string key \<open>k\<close>.\<close>

fun py_item :: "json \<Rightarrow> string \<Rightarrow> py_exn + json" where
  "py_item (JObj kvs) k =
     (case map_of kvs k of Some v \<Rightarrow> Inr v | None \<Rightarrow> Inl (PyExn KeyError (sq # k @ [sq])))"
| "py_item (JArr xs) k =
     Inl (PyExn TypeError ''list indices must be integers or slices, not str'')"
| "py_item (JStr s) k =
     Inl (PyExn TypeError (''string indices must be integers, not '' @ sq # ''str'' @ [sq]))"
| "py_item x k = Inl (not_subscriptable x)"

text \<open>\<open>x.replace(' ', '_')\<close>.\<close>

fun py_replace_space :: "json \<Rightarrow> py_exn + string" where
  "py_replace_space (JStr s) = Inr (map (\<lambda>c. if c = CHR '' '' then CHR ''_'' else c) s)"
| "py_replace_space x = Inl (no_attribute x ''replace'')"

text \<open>\<open>x[:n]\<close>.\<close>

fun py_slice_to :: "nat \<Rightarrow> json \<Rightarrow> py_exn + json" where
  "py_slice_to n (JStr s) = Inr (JStr (take n s))"
| "py_slice_to n (JArr xs) = Inr (JArr (take n xs))"
| "py_slice_to n (JObj kvs) =
     Inl (PyExn KeyError (''slice(None, '' @ str_nat n @ '', None)''))"
| "py_slice_to n x = Inl (not_subscriptable x)"

section \<open>The outside world: LLM, HTTP, and the record of what was asked of them\<close>

text \<open>
  Every call that leaves the process is recorded as an event, in order. The last two
  constructors are the Playwright form operations; they are part of the API the
  browser example has at hand.
\<close>

datatype event =
    LLMInvoke string
  | HttpGet string "(string \<times> json) list"
  | HttpPost string json "(string \<times> string) list"
  | ConnectOverCDP string
  | NewPage
  | PageGoto string
  | WorkerEvaluate string string
  | PageFill string string
  | PageClick string

text \<open>\<open>events\<close>: the calls made so far. \<open>node_runs\<close>: the graph runtime's own record of the
  nodes it has started (what the tracing dashboard shows as the path taken).\<close>

record world =
  events :: "event list"
  node_runs :: "string list"

text \<open>A computation may raise instead of returning, and in both cases leaves a world.\<close>

type_synonym 'a io = "world \<Rightarrow> (py_exn + 'a) \<times> world"

definition io_return :: "'a \<Rightarrow> 'a io" where
  "io_return x = (\<lambda>w. (Inr x, w))"

definition io_raise :: "py_exn \<Rightarrow> 'a io" where
  "io_raise e = (\<lambda>w. (Inl e, w))"

definition io_lift :: "py_exn + 'a \<Rightarrow> 'a io" where
  "io_lift r = (\<lambda>w. (r, w))"

definition io_bind :: "'a io \<Rightarrow> ('a \<Rightarrow> 'b io) \<Rightarrow> 'b io" where
  "io_bind m k = (\<lambda>w. case m w of (Inl e, w') \<Rightarrow> (Inl e, w') | (Inr x, w') \<Rightarrow> k x w')"

text \<open>\<open>try: m except Exception as e: h(e)\<close>.\<close>

definition try_except :: "'a io \<Rightarrow> (py_exn \<Rightarrow> 'a io) \<Rightarrow> 'a io" where
  "try_except m h = (\<lambda>w. case m w of (Inl e, w') \<Rightarrow> h e w' | (Inr x, w') \<Rightarrow> (Inr x, w'))"

text \<open>One HTTP response: the status code, and what \<open>response.json()\<close> gives (it raises
  on a body that is not JSON).\<close>

record response =
  status_code :: int
  json_body :: "py_exn + json"

text \<open>
  The services the notebook talks to. Each reply may depend on everything asked so
  far, and each call may raise. \<open>py_repr\<close> is Python's \<open>repr\<close> on decoded JSON values,
  which an f-string uses for a value that is not a \<open>str\<close>.
\<close>

record env =
  llm_reply :: "event list \<Rightarrow> string \<Rightarrow> py_exn + string"
  get_reply :: "event list \<Rightarrow> string \<Rightarrow> (string \<times> json) list \<Rightarrow> py_exn + response"
  py_repr :: "json \<Rightarrow> string"

text \<open>\<open>llm.invoke([SystemMessage(content=prompt)]).content\<close>.\<close>

definition llm_invoke :: "env \<Rightarrow> string \<Rightarrow> string io" where
  "llm_invoke env prompt =
     (\<lambda>w. (llm_reply env (events w) prompt, w\<lparr>events := events w @ [LLMInvoke prompt]\<rparr>))"

text \<open>\<open>requests.get(url, params=params, timeout=10)\<close>; a timeout is one of the ways to raise.\<close>

definition requests_get :: "env \<Rightarrow> string \<Rightarrow> (string \<times> json) list \<Rightarrow> response io" where
  "requests_get env url params =
     (\<lambda>w. (get_reply env (events w) url params, w\<lparr>events := events w @ [HttpGet url params]\<rparr>))"

text \<open>An f-string field \<open>{x}\<close>.\<close>

fun fmt :: "env \<Rightarrow> json \<Rightarrow> string" where
  "fmt env (JStr s) = s"
| "fmt env x = py_repr env x"

section \<open>The search tool\<close>

definition search_url :: string where
  "search_url = ''https://en.wikipedia.org/w/api.php''"

definition search_params :: "string \<Rightarrow> (string \<times> json) list" where
  "search_params query =
     [(''action'', JStr ''query''),
      (''list'', JStr ''search''),
      (''srsearch'', JStr query),
      (''format'', JStr ''json''),
      (''srlimit'', JInt 3)]"

definition summary_url :: "string \<Rightarrow> string" where
  "summary_url underscored = ''https://en.wikipedia.org/api/rest_v1/page/summary/'' @ underscored"

text \<open>The body of the \<open>try\<close> block of \<open>wikipedia_search\<close>.\<close>

definition wikipedia_search_body :: "env \<Rightarrow> string \<Rightarrow> string io" where
  "wikipedia_search_body env query =
     io_bind (requests_get env search_url (search_params query)) (\<lambda>response.
     if status_code response = 200 then
       io_bind (io_lift (json_body response)) (\<lambda>data.
       io_bind (io_lift (py_get data ''query'' (JObj []))) (\<lambda>query_part.
       io_bind (io_lift (py_get query_part ''search'' (JArr []))) (\<lambda>search_results.
       if json_truth search_results then
         io_bind (io_lift (py_index0 search_results)) (\<lambda>top_result.
         io_bind (io_lift (py_item top_result ''title'')) (\<lambda>page_title.
         io_bind (io_lift (py_replace_space page_title)) (\<lambda>underscored.
         io_bind (requests_get env (summary_url underscored) []) (\<lambda>summary_response.
         if status_code summary_response = 200 then
           io_bind (io_lift (json_body summary_response)) (\<lambda>summary_data.
           io_bind (io_lift (py_get summary_data ''extract'' (JStr ''No summary available''))) (\<lambda>extract.
           io_bind (io_lift (py_slice_to 400 extract)) (\<lambda>truncated.
           io_return (''Found information about '' @ sq # fmt env page_title @ sq # '': ''
                      @ fmt env truncated @ ''...''))))
         else
           io_return (''Found '' @ sq # fmt env page_title @ sq
                      # '' but couldn'' @ sq # ''t retrieve summary'')))))
       else
         io_return (''No Wikipedia articles found for '' @ sq # query @ [sq]))))
     else
       io_return (''Wikipedia search failed with status '' @ str_int (status_code response)))"

definition wikipedia_search :: "env \<Rightarrow> string \<Rightarrow> string io" where
  "wikipedia_search env query =
     try_except (wikipedia_search_body env query)
       (\<lambda>e. io_return (''Search error: '' @ exn_str e))"

section \<open>The agent state\<close>

text \<open>
  \<open>AgentState\<close> is a \<open>TypedDict\<close>: at run time a plain dict from field names to values.
  The schema uses two value types, \<open>str\<close> and \<open>bool\<close>.
\<close>

datatype pyval = PStr string | PBool bool

type_synonym agent_state = "string \<rightharpoonup> pyval"

text \<open>\<open>state[k]\<close>.\<close>

definition dict_item :: "agent_state \<Rightarrow> string \<Rightarrow> py_exn + pyval" where
  "dict_item state k =
     (case state k of Some v \<Rightarrow> Inr v | None \<Rightarrow> Inl (PyExn KeyError (sq # k @ [sq])))"

text \<open>\<open>state.get(k, d)\<close>.\<close>

definition dict_get :: "agent_state \<Rightarrow> string \<Rightarrow> pyval \<Rightarrow> pyval" where
  "dict_get state k d = (case state k of Some v \<Rightarrow> v | None \<Rightarrow> d)"

fun py_format :: "pyval \<Rightarrow> string" where
  "py_format (PStr s) = s"
| "py_format (PBool b) = (if b then ''True'' else ''False'')"

fun py_truth :: "pyval \<Rightarrow> bool" where
  "py_truth (PStr s) = (s \<noteq> [])"
| "py_truth (PBool b) = b"

text \<open>\<open>sub not in x\<close>.\<close>

fun py_not_in :: "string \<Rightarrow> pyval \<Rightarrow> py_exn + bool" where
  "py_not_in sub (PStr s) = Inr (\<not> py_in sub s)"
| "py_not_in sub (PBool b) =
     Inl (PyExn TypeError (''argument of type '' @ sq # ''bool'' @ sq # '' is not iterable''))"

text \<open>What the schema declares: exactly these five keys, each with its type.\<close>

fun is_str :: "pyval option \<Rightarrow> bool" where
  "is_str (Some (PStr s)) = True"
| "is_str v = False"

fun is_bool :: "pyval option \<Rightarrow> bool" where
  "is_bool (Some (PBool b)) = True"
| "is_bool v = False"

definition AgentState :: "agent_state \<Rightarrow> bool" where
  "AgentState state =
     (dom state = {''user_question'', ''needs_search'', ''search_result'',
                   ''final_answer'', ''reasoning''}
      \<and> is_str (state ''user_question'')
      \<and> is_bool (state ''needs_search'')
      \<and> is_str (state ''search_result'')
      \<and> is_str (state ''final_answer'')
      \<and> is_str (state ''reasoning''))"

text \<open>The state \<open>run_test_with_observability\<close> starts from.\<close>

definition initial_state :: "string \<Rightarrow> agent_state" where
  "initial_state question =
     [''user_question'' \<mapsto> PStr question,
      ''needs_search'' \<mapsto> PBool False,
      ''search_result'' \<mapsto> PStr [],
      ''final_answer'' \<mapsto> PStr [],
      ''reasoning'' \<mapsto> PStr []]"

section \<open>The three steps\<close>

definition decision_prompt :: "string \<Rightarrow> string" where
  \<open>decision_prompt user_question =
     nl # ''    Analyze this question and decide if it requires current/recent information that might not be in your training data:'' @
     nl # ''    '' @
     nl # ''    Question: "'' @ user_question @ ''"'' @
     nl # ''    '' @
     nl # ''    Consider:'' @
     nl # ''    - Does this ask about recent events, current prices, or breaking news?'' @
     nl # ''    - Does this ask about people, companies, or topics that change frequently?'' @
     nl # ''    - Can you answer this well using your existing knowledge?'' @
     nl # ''    '' @
     nl # ''    Respond with exactly "SEARCH" if you need current information, or "DIRECT" if you can answer directly.'' @
     nl # ''    Then on a new line, briefly explain your reasoning.'' @
     nl # ''    ''\<close>

text \<open>\<open>lines[0]\<close>.\<close>

definition first_item :: "'a list \<Rightarrow> py_exn + 'a" where
  "first_item xs =
     (case xs of [] \<Rightarrow> Inl (PyExn IndexError ''list index out of range'') | x # _ \<Rightarrow> Inr x)"

text \<open>The print statements of the steps write to the notebook output only; of their
  arguments, the one read that can raise (\<open>state['user_question']\<close> in \<open>execute_search\<close>)
  is kept.\<close>

definition decide_search_need :: "env \<Rightarrow> agent_state \<Rightarrow> agent_state io" where
  "decide_search_need env state =
     io_bind (io_lift (dict_item state ''user_question'')) (\<lambda>user_question.
     io_bind (llm_invoke env (decision_prompt (py_format user_question))) (\<lambda>content.
     let decision_text = py_strip content;
         lines = py_split nl decision_text
     in io_bind (io_lift (first_item lines)) (\<lambda>line0.
     let decision = py_strip line0;
         reasoning = (if length lines > 1 then lines ! 1 else ''No reasoning provided'');
         state1 = state(''needs_search'' \<mapsto> PBool (decision = ''SEARCH''));
         state2 = state1(''reasoning'' \<mapsto>
                    PStr (''Decision: '' @ decision @ ''. Reasoning: '' @ reasoning))
     in io_return state2)))"

text \<open>\<open>wikipedia_search.invoke({"query": v})\<close>: the tool checks its argument against the
  annotation \<open>query: str\<close> before the function runs.\<close>

fun tool_invoke :: "env \<Rightarrow> pyval \<Rightarrow> string io" where
  "tool_invoke env (PStr query) = wikipedia_search env query"
| "tool_invoke env (PBool b) =
     io_raise (PyExn ValidationError ''query: Input should be a valid string'')"

definition execute_search :: "env \<Rightarrow> agent_state \<Rightarrow> agent_state io" where
  "execute_search env state =
     io_bind (io_lift (dict_item state ''needs_search'')) (\<lambda>needs_search.
     if \<not> py_truth needs_search then
       io_return (state(''search_result'' \<mapsto> PStr ''No search performed''))
     else
       io_bind (io_lift (dict_item state ''user_question'')) (\<lambda>user_question.
       io_bind (tool_invoke env user_question) (\<lambda>search_result.
       io_return (state(''search_result'' \<mapsto> PStr search_result)))))"

definition search_context :: "string \<Rightarrow> string \<Rightarrow> string" where
  "search_context user_question search_result =
     ''Question: '' @ user_question @ nl # nl # ''Search Results: '' @ search_result"

definition search_prompt :: "string \<Rightarrow> string" where
  "search_prompt context =
     nl # ''        Answer the user'' @ sq # ''s question using both your knowledge and the search results provided.'' @
     nl # ''        '' @
     nl # ''        '' @ context @
     nl # ''        '' @
     nl # ''        Provide a helpful, accurate response that synthesizes the information.'' @
     nl # ''        ''"

definition direct_prompt :: "string \<Rightarrow> string" where
  "direct_prompt user_question =
     nl # ''        Answer this question using your existing knowledge:'' @
     nl # ''        '' @
     nl # ''        '' @ user_question @
     nl # ''        '' @
     nl # ''        Provide a helpful, accurate response.'' @
     nl # ''        ''"

text \<open>The prompt \<open>generate_response\<close> builds; \<open>a and b\<close> evaluates \<open>b\<close> only when \<open>a\<close> is true.\<close>

definition or_raise :: "py_exn + 'a \<Rightarrow> ('a \<Rightarrow> py_exn + 'b) \<Rightarrow> py_exn + 'b" where
  "or_raise r k = (case r of Inl e \<Rightarrow> Inl e | Inr x \<Rightarrow> k x)"

definition response_prompt :: "agent_state \<Rightarrow> py_exn + string" where
  "response_prompt state =
     or_raise (dict_item state ''user_question'') (\<lambda>user_question.
     let search_result = dict_get state ''search_result'' (PStr []) in
     or_raise (dict_item state ''needs_search'') (\<lambda>used_search.
     or_raise (if py_truth used_search then py_not_in ''Search error'' search_result
               else Inr False) (\<lambda>with_results.
     if with_results then
       Inr (search_prompt (search_context (py_format user_question) (py_format search_result)))
     else
       Inr (direct_prompt (py_format user_question)))))"

definition generate_response :: "env \<Rightarrow> agent_state \<Rightarrow> agent_state io" where
  "generate_response env state =
     io_bind (io_lift (response_prompt state)) (\<lambda>prompt.
     io_bind (llm_invoke env prompt) (\<lambda>content.
     io_return (state(''final_answer'' \<mapsto> PStr content))))"

section \<open>The workflow graph\<close>

text \<open>
  A \<open>StateGraph\<close> as the notebook builds it: named nodes, plain edges, an entry point.
  \<open>END\<close> is the library's end marker.
\<close>

record graph =
  nodes :: "(string \<times> (agent_state \<Rightarrow> agent_state io)) list"
  edges :: "(string \<times> string) list"
  entry_point :: "string option"

definition END :: string where
  "END = ''__end__''"

definition StateGraph :: graph where
  "StateGraph = \<lparr>nodes = [], edges = [], entry_point = None\<rparr>"

definition add_node :: "string \<Rightarrow> (agent_state \<Rightarrow> agent_state io) \<Rightarrow> graph \<Rightarrow> graph" where
  "add_node name action g = g\<lparr>nodes := nodes g @ [(name, action)]\<rparr>"

definition set_entry_point :: "string \<Rightarrow> graph \<Rightarrow> graph" where
  "set_entry_point name g = g\<lparr>entry_point := Some name\<rparr>"

definition add_edge :: "string \<Rightarrow> string \<Rightarrow> graph \<Rightarrow> graph" where
  "add_edge a b g = g\<lparr>edges := edges g @ [(a, b)]\<rparr>"

definition workflow :: "env \<Rightarrow> graph" where
  "workflow env =
     (add_edge ''respond'' END
       (add_edge ''search'' ''respond''
         (add_edge ''decide'' ''search''
           (set_entry_point ''decide''
             (add_node ''respond'' (generate_response env)
               (add_node ''search'' (execute_search env)
                 (add_node ''decide'' (decide_search_need env) StateGraph)))))))"

text \<open>
  Running a compiled graph with plain edges: starting at the entry point, the runtime
  records the node, runs it on the current state, takes the state it returns, and
  follows the node's outgoing edge, until it reaches \<open>END\<close>. Each node run is one step
  of the runtime's step budget (\<open>recursion_limit\<close>, 25 unless configured). A node with
  several outgoing edges would fan out, which this walker does not cover.
\<close>

definition start_node :: "string \<Rightarrow> unit io" where
  "start_node name = (\<lambda>w. (Inr (), w\<lparr>node_runs := node_runs w @ [name]\<rparr>))"

fun run_from :: "graph \<Rightarrow> nat \<Rightarrow> string \<Rightarrow> agent_state \<Rightarrow> agent_state io" where
  "run_from g 0 name state =
     (if name = END then io_return state
      else io_raise (PyExn GraphRecursionError ''Recursion limit reached''))"
| "run_from g (Suc budget) name state =
     (if name = END then io_return state
      else case map_of (nodes g) name of
        None \<Rightarrow> io_raise (PyExn ValueError (''unknown node '' @ name))
      | Some action \<Rightarrow>
          io_bind (start_node name) (\<lambda>_.
          io_bind (action state) (\<lambda>state'.
          case filter (\<lambda>e. fst e = name) (edges g) of
            [] \<Rightarrow> io_return state'
          | [e] \<Rightarrow> run_from g budget (snd e) state'
          | _ \<Rightarrow> io_raise (PyExn ValueError ''fan-out is not supported''))))"

definition recursion_limit :: nat where
  "recursion_limit = 25"

definition invoke :: "graph \<Rightarrow> agent_state \<Rightarrow> agent_state io" where
  "invoke g state =
     (case entry_point g of
        None \<Rightarrow> io_raise (PyExn ValueError ''graph has no entry point'')
      | Some name \<Rightarrow> run_from g recursion_limit name state)"

definition simple_agent :: "env \<Rightarrow> agent_state \<Rightarrow> agent_state io" where
  "simple_agent env = invoke (workflow env)"

section \<open>The browser-automation example\<close>

text \<open>
  The second notebook: one cell creates a cloud browser session over HTTP, the next
  connects to it with Playwright, looks for the AI agent's service worker, opens the
  resume page and hands the agent one task. The cells run top to bottom, each call
  awaited before the next.
\<close>

record browser_context =
  service_workers :: "string list"
  pages :: "nat list"

text \<open>The cloud API and the remote browser; \<open>json_dumps\<close> is \<open>json.dumps\<close>.\<close>

record cloud =
  post_reply :: "event list \<Rightarrow> string \<Rightarrow> json \<Rightarrow> (string \<times> string) list \<Rightarrow> py_exn + response"
  cdp_reply :: "event list \<Rightarrow> string \<Rightarrow> py_exn + browser_context list"
  new_page_reply :: "event list \<Rightarrow> py_exn + nat"
  goto_reply :: "event list \<Rightarrow> string \<Rightarrow> py_exn + unit"
  evaluate_reply :: "event list \<Rightarrow> string \<Rightarrow> string \<Rightarrow> py_exn + json"
  json_dumps :: "json \<Rightarrow> string"

text \<open>\<open>requests.post(url, json=payload, headers=headers)\<close>.\<close>

definition requests_post ::
  "cloud \<Rightarrow> string \<Rightarrow> json \<Rightarrow> (string \<times> string) list \<Rightarrow> response io" where
  "requests_post cloud url body headers =
     (\<lambda>w. (post_reply cloud (events w) url body headers,
           w\<lparr>events := events w @ [HttpPost url body headers]\<rparr>))"

text \<open>\<open>playwright.chromium.connect_over_cdp(x)\<close>: the endpoint has to be a string; the
  result is read through \<open>browser.contexts\<close>.\<close>

fun connect_over_cdp :: "cloud \<Rightarrow> json \<Rightarrow> browser_context list io" where
  "connect_over_cdp cloud (JStr endpoint) =
     (\<lambda>w. (cdp_reply cloud (events w) endpoint,
           w\<lparr>events := events w @ [ConnectOverCDP endpoint]\<rparr>))"
| "connect_over_cdp cloud x =
     io_raise (PyExn PlaywrightError ''endpoint_url: expected string'')"

definition new_page :: "cloud \<Rightarrow> nat io" where
  "new_page cloud = (\<lambda>w. (new_page_reply cloud (events w), w\<lparr>events := events w @ [NewPage]\<rparr>))"

definition page_goto :: "cloud \<Rightarrow> nat \<Rightarrow> string \<Rightarrow> unit io" where
  "page_goto cloud page url =
     (\<lambda>w. (goto_reply cloud (events w) url, w\<lparr>events := events w @ [PageGoto url]\<rparr>))"

definition worker_evaluate :: "cloud \<Rightarrow> string \<Rightarrow> string \<Rightarrow> json io" where
  "worker_evaluate cloud worker expression =
     (\<lambda>w. (evaluate_reply cloud (events w) worker expression,
           w\<lparr>events := events w @ [WorkerEvaluate worker expression]\<rparr>))"

definition session_url :: string where
  "session_url = ''https://api.anchorbrowser.io/v1/sessions''"

definition payload :: json where
  "payload =
     JObj [(''session'', JObj
       [(''timeout'', JObj [(''max_duration'', JInt 4), (''idle_timeout'', JInt 2)]),
        (''browser'', JObj [(''viewport'', JObj [(''width'', JInt 1920), (''height'', JInt 1080)])]),
        (''recording'', JObj [(''enabled'', JBool True), (''video'', JBool True)])])]"

definition headers :: "(string \<times> string) list" where
  "headers = [(''anchor-api-key'', ''<ANCHOR-API-KEY>''), (''Content-Type'', ''application/json'')]"

text \<open>The first cell; what it leaves for the next one is \<open>connection_string\<close>.\<close>

definition create_session :: "cloud \<Rightarrow> json io" where
  "create_session cloud =
     io_bind (requests_post cloud session_url payload headers) (\<lambda>response.
     io_bind (io_lift (json_body response)) (\<lambda>session_data.
     io_bind (io_lift (py_item session_data ''data'')) (\<lambda>data.
     io_bind (io_lift (py_item data ''cdp_url'')) (\<lambda>connection_string.
     io_bind (io_lift (py_item data ''id'')) (\<lambda>session_id.
     io_bind (io_lift (py_slice_to 50 connection_string)) (\<lambda>shown.
     io_return connection_string))))))"

definition ai_agent_url :: string where
  "ai_agent_url = ''chrome-extension://bppehibnhionalpjigdjdilknbljaeai/background.js''"

definition resume_url :: string where
  "resume_url = ''https://www.wix.com/demone2/nicol-rider''"

definition task_prompt :: string where
  "task_prompt =
     ''Read the resume on this page, understand the personal details, '' @
     ''and complete the form at https://formspree.io/library/donation/charity-donation-form/preview.html '' @
     ''as if you were this person. Use appropriate information from the resume '' @
     ''to fill out personal details. Limit the donation amount to $10.''"

definition task_configuration :: "(string \<times> json) list" where
  "task_configuration =
     [(''prompt'', JStr task_prompt),
      (''provider'', JStr ''openai''),
      (''model'', JStr ''gpt-4''),
      (''highlight_elements'', JBool True)]"

text \<open>The second cell.\<close>

definition form_automation :: "cloud \<Rightarrow> json \<Rightarrow> json io" where
  "form_automation cloud connection_string =
     io_bind (connect_over_cdp cloud connection_string) (\<lambda>contexts.
     io_bind (io_lift (first_item contexts)) (\<lambda>context.
     case find (\<lambda>sw. sw = ai_agent_url) (service_workers context) of
       None \<Rightarrow> io_raise (PyExn Exception ''AI agent not found in browser context'')
     | Some ai_agent \<Rightarrow>
         io_bind (if pages context \<noteq> [] then io_return (hd (pages context))
                  else new_page cloud) (\<lambda>page.
         io_bind (page_goto cloud page resume_url) (\<lambda>_.
         worker_evaluate cloud ai_agent (json_dumps cloud (JObj task_configuration))))))"

definition browser_example :: "cloud \<Rightarrow> json io" where
  "browser_example cloud = io_bind (create_session cloud) (form_automation cloud)"

fun is_http_post :: "event \<Rightarrow> bool" where
  "is_http_post (HttpPost url body hs) = True"
| "is_http_post e = False"

fun is_task :: "event \<Rightarrow> bool" where
  "is_task (WorkerEvaluate worker expression) = True"
| "is_task e = False"

fun is_form_interaction :: "event \<Rightarrow> bool" where
  "is_form_interaction (PageFill selector v) = True"
| "is_form_interaction (PageClick selector) = True"
| "is_form_interaction e = False"

definition http_posts :: "event list \<Rightarrow> nat" where
  "http_posts es = length (filter is_http_post es)"

definition tasks :: "event list \<Rightarrow> nat" where
  "tasks es = length (filter is_task es)"

definition form_interactions :: "event list \<Rightarrow> nat" where
  "form_interactions es = length (filter is_form_interaction es)"

section \<open>Names for what the search tool asks and reads\<close>

text \<open>The title as it goes into the summary URL, the two requests, the expressions
  \<open>response.json().get('query', {}).get('search', [])\<close> and \<open>search_results[0]['title']\<close>,
  and a world after some more requests.\<close>

definition underscored :: "string \<Rightarrow> string" where
  "underscored title = map (\<lambda>c. if c = CHR '' '' then CHR ''_'' else c) title"

definition search_request :: "string \<Rightarrow> event" where
  "search_request query = HttpGet search_url (search_params query)"

definition summary_request :: "string \<Rightarrow> event" where
  "summary_request title = HttpGet (summary_url (underscored title)) []"

definition found_results :: "response \<Rightarrow> py_exn + json" where
  "found_results resp =
     or_raise (json_body resp) (\<lambda>data.
     or_raise (py_get data ''query'' (JObj [])) (\<lambda>query_part.
     py_get query_part ''search'' (JArr [])))"

definition top_title :: "json \<Rightarrow> py_exn + json" where
  "top_title search_results =
     or_raise (py_index0 search_results) (\<lambda>top_result. py_item top_result ''title'')"

definition asked :: "world \<Rightarrow> event list \<Rightarrow> world" where
  "asked w es = w\<lparr>events := events w @ es\<rparr>"


text \<open>A computation that neither reads nor writes the runtime's record of node runs.\<close>

definition ignores_node_runs :: "'a io \<Rightarrow> bool" where
  "ignores_node_runs m =
     (\<forall>w r. m (w\<lparr>node_runs := r\<rparr>) = (fst (m w), (snd (m w))\<lparr>node_runs := r\<rparr>))"





section \<open>Example worlds\<close>

definition world0 :: world where
  "world0 = \<lparr>events = [], node_runs = []\<rparr>"

definition json_response :: "int \<Rightarrow> json \<Rightarrow> response" where
  "json_response code body = \<lparr>status_code = code, json_body = Inr body\<rparr>"

definition served :: "(py_exn + response) \<Rightarrow> (py_exn + response) \<Rightarrow> env" where
  "served first second =
     \<lparr>llm_reply = (\<lambda>h p. if h = [] then Inr (''SEARCH'' @ nl # ''current facts needed'')
                         else Inr ''An answer''),
      get_reply = (\<lambda>h u ps. if u = search_url then first else second),
      py_repr = (\<lambda>x. ''?'')\<rparr>"

definition turing_results :: json where
  "turing_results = JObj [(''query'', JObj [(''search'', JArr [JObj [(''title'', JStr ''Alan Turing'')]])])]"

definition env_says :: "string \<Rightarrow> env" where
  "env_says content =
     \<lparr>llm_reply = (\<lambda>h p. Inr content),
      get_reply = (\<lambda>h u ps. Inl (PyExn RequestException ''timed out'')),
      py_repr = (\<lambda>x. ''?'')\<rparr>"

definition timed_out :: "py_exn + response" where
  "timed_out = Inl (PyExn RequestException ''timed out'')"

definition searching_state :: agent_state where
  "searching_state = (initial_state ''q'')(''needs_search'' \<mapsto> PBool True)"

definition no_results :: json where
  "no_results = JObj [(''batchcomplete'', JStr [])]"

definition long_extract :: json where
  "long_extract = JObj [(''title'', JStr ''Alan Turing''), (''extract'', JStr (replicate 401 CHR ''a''))]"

definition no_extract :: json where
  "no_extract = JObj [(''title'', JStr ''Alan Turing'')]"



text \<open>A run that answers directly: the LLM replies with the empty string.\<close>

definition direct_s1 :: agent_state where
  "direct_s1 = (initial_state ''q'')(''needs_search'' \<mapsto> PBool False,
     ''reasoning'' \<mapsto> PStr ''Decision: . Reasoning: No reasoning provided'')"

definition direct_w1 :: world where
  "direct_w1 = asked world0 [LLMInvoke (decision_prompt ''q'')]"

definition direct_s2 :: agent_state where
  "direct_s2 = direct_s1(''search_result'' \<mapsto> PStr ''No search performed'')"

definition direct_s3 :: agent_state where
  "direct_s3 = direct_s2(''final_answer'' \<mapsto> PStr [])"

definition direct_w3 :: world where
  "direct_w3 = asked direct_w1 [LLMInvoke (direct_prompt ''q'')]"









text \<open>A cloud whose browser context has the given service workers.\<close>

definition session_json :: json where
  "session_json = JObj [(''data'', JObj [(''id'', JStr ''s1''), (''cdp_url'', JStr ''wss://connect'')])]"

definition cloud_with :: "string list \<Rightarrow> cloud" where
  "cloud_with workers =
     \<lparr>post_reply = (\<lambda>h u b hs. Inr (json_response 200 session_json)),
      cdp_reply = (\<lambda>h e. Inr [\<lparr>service_workers = workers, pages = [0]\<rparr>]),
      new_page_reply = (\<lambda>h. Inr 1),
      goto_reply = (\<lambda>h u. Inr ()),
      evaluate_reply = (\<lambda>h wk ex. Inr (JStr ''done'')),
      json_dumps = (\<lambda>j. ''{}'')\<rparr>"

definition session_world :: world where
  "session_world = asked world0 [HttpPost session_url payload headers]"

section \<open>Facts about the string operations\<close>

lemma py_split_not_Nil: "py_split sep s \<noteq> []"
  by (induction s) auto

lemma first_item_py_split: "first_item (py_split sep s) = Inr (hd (py_split sep s))"
  using py_split_not_Nil [of sep s] by (cases "py_split sep s") (auto simp: first_item_def)

lemma hd_py_split: "hd (py_split sep s) = takeWhile (\<lambda>c. c \<noteq> sep) s"
  by (induction s) auto

lemma length_py_split: "length (py_split sep s) = Suc (length (filter (\<lambda>c. c = sep) s))"
proof (induction s)
  case Nil
  then show ?case by simp
next
  case (Cons c cs)
  then show ?case using py_split_not_Nil [of sep cs]
    by (cases "py_split sep cs") auto
qed

lemma py_split_more_than_one: "1 < length (py_split sep s) \<longleftrightarrow> sep \<in> set s"
  by (auto simp: length_py_split filter_empty_conv)

lemma second_py_split:
  "sep \<in> set s \<Longrightarrow> py_split sep s ! 1 = takeWhile (\<lambda>c. c \<noteq> sep) (tl (dropWhile (\<lambda>c. c \<noteq> sep) s))"
proof (induction s)
  case Nil
  then show ?case by simp
next
  case (Cons c cs)
  show ?case
  proof (cases "c = sep")
    case True
    then show ?thesis by (simp add: hd_py_split hd_conv_nth [symmetric] py_split_not_Nil)
  next
    case False
    with Cons.prems have "sep \<in> set cs" by simp
    then have "1 < length (py_split sep cs)" using py_split_more_than_one [of sep cs] by simp
    then have "tl (py_split sep cs) \<noteq> []" by (cases "py_split sep cs") auto
    then have "py_split sep cs ! 1 = hd (tl (py_split sep cs))"
      by (cases "py_split sep cs") (auto simp: hd_conv_nth)
    with False Cons.IH [OF \<open>sep \<in> set cs\<close>] \<open>tl (py_split sep cs) \<noteq> []\<close> show ?thesis
      by (simp add: hd_conv_nth)
  qed
qed


section \<open>The search tool: what it returns and what it asks\<close>

lemma try_except_total:
  "(\<And>e w'. \<exists>s. fst (h e w') = Inr s) \<Longrightarrow> \<exists>s. fst (try_except m h w) = Inr s"
  by (auto simp: try_except_def split: prod.splits sum.splits)

lemma wikipedia_search_returns: "\<exists>s. fst (wikipedia_search env query w) = Inr s"
  unfolding wikipedia_search_def
  by (rule try_except_total) (simp add: io_return_def)

lemma wikipedia_search_caught:
  "fst (wikipedia_search_body env query w) = Inl e \<Longrightarrow>
   fst (wikipedia_search env query w) = Inr (''Search error: '' @ exn_str e)"
  by (auto simp: wikipedia_search_def try_except_def io_return_def split: prod.splits sum.splits)

lemma execute_search_stores:
  "state ''needs_search'' = Some (PBool True) \<Longrightarrow> state ''user_question'' = Some (PStr query) \<Longrightarrow>
   execute_search env state w =
     (Inr (state(''search_result'' \<mapsto> PStr (projr (fst (wikipedia_search env query w))))),
      snd (wikipedia_search env query w))"
  using wikipedia_search_returns [of env query w]
  by (auto simp add: execute_search_def io_bind_def io_lift_def dict_item_def io_return_def
      split: prod.splits sum.splits)

lemmas body_defs = wikipedia_search_body_def io_bind_def io_lift_def requests_get_def
  io_return_def found_results_def top_title_def or_raise_def asked_def search_request_def
  summary_request_def underscored_def

lemma body_status:
  "get_reply env (events w) search_url (search_params query) = Inr resp \<Longrightarrow>
   status_code resp \<noteq> 200 \<Longrightarrow>
   wikipedia_search_body env query w =
     (Inr (''Wikipedia search failed with status '' @ str_int (status_code resp)),
      asked w [search_request query])"
  by (simp add: body_defs)

lemma body_empty:
  "get_reply env (events w) search_url (search_params query) = Inr resp \<Longrightarrow>
   status_code resp = 200 \<Longrightarrow> found_results resp = Inr results \<Longrightarrow> \<not> json_truth results \<Longrightarrow>
   wikipedia_search_body env query w =
     (Inr (''No Wikipedia articles found for '' @ sq # query @ [sq]),
      asked w [search_request query])"
  by (auto simp add: body_defs split: sum.splits)

lemma body_summary_status:
  "get_reply env (events w) search_url (search_params query) = Inr resp \<Longrightarrow>
   status_code resp = 200 \<Longrightarrow> found_results resp = Inr results \<Longrightarrow> json_truth results \<Longrightarrow>
   top_title results = Inr (JStr title) \<Longrightarrow>
   get_reply env (events w @ [search_request query]) (summary_url (underscored title)) [] = Inr resp2 \<Longrightarrow>
   status_code resp2 \<noteq> 200 \<Longrightarrow>
   wikipedia_search_body env query w =
     (Inr (''Found '' @ sq # title @ sq # '' but couldn'' @ sq # ''t retrieve summary''),
      asked w [search_request query, summary_request title])"
  by (auto simp add: body_defs split: sum.splits)

lemma body_found:
  "get_reply env (events w) search_url (search_params query) = Inr resp \<Longrightarrow>
   status_code resp = 200 \<Longrightarrow> found_results resp = Inr results \<Longrightarrow> json_truth results \<Longrightarrow>
   top_title results = Inr (JStr title) \<Longrightarrow>
   get_reply env (events w @ [search_request query]) (summary_url (underscored title)) [] = Inr resp2 \<Longrightarrow>
   status_code resp2 = 200 \<Longrightarrow> json_body resp2 = Inr summary_data \<Longrightarrow>
   py_get summary_data ''extract'' (JStr ''No summary available'') = Inr (JStr extract) \<Longrightarrow>
   wikipedia_search_body env query w =
     (Inr (''Found information about '' @ sq # title @ sq # '': '' @ take 400 extract @ ''...''),
      asked w [search_request query, summary_request title])"
  by (auto simp add: body_defs split: sum.splits)

lemma search_of_body:
  "wikipedia_search_body env query w = (Inr s, w') \<Longrightarrow> wikipedia_search env query w = (Inr s, w')"
  by (simp add: wikipedia_search_def try_except_def)

lemma title_is_str: "py_replace_space x = Inr u \<Longrightarrow> \<exists>t. x = JStr t \<and> u = underscored t"
  by (cases x) (auto simp: underscored_def)

lemma body_events:
  "events (snd (wikipedia_search_body env query w)) = events w @ [search_request query]
   \<or> (\<exists>title. events (snd (wikipedia_search_body env query w))
                 = events w @ [search_request query, summary_request title])"
  by (auto simp add: body_defs split: sum.splits dest!: title_is_str)

lemma search_events: "snd (wikipedia_search env query w) = snd (wikipedia_search_body env query w)"
  by (auto simp: wikipedia_search_def try_except_def io_return_def split: prod.splits sum.splits)

section \<open>The decision step\<close>

lemma decide_search_need_result:
  assumes q: "state ''user_question'' = Some q"
    and r: "llm_reply env (events w) (decision_prompt (py_format q)) = Inr content"
  shows "decide_search_need env state w =
           (Inr (state(''needs_search'' \<mapsto>
                   PBool (py_strip (hd (py_split nl (py_strip content))) = ''SEARCH''),
                 ''reasoning'' \<mapsto>
                   PStr (''Decision: '' @ py_strip (hd (py_split nl (py_strip content)))
                     @ ''. Reasoning: ''
                     @ (if 1 < length (py_split nl (py_strip content))
                        then py_split nl (py_strip content) ! 1
                        else ''No reasoning provided'')))),
            asked w [LLMInvoke (decision_prompt (py_format q))])"
  using q r
  by (simp add: decide_search_need_def io_bind_def io_lift_def dict_item_def llm_invoke_def
      first_item_py_split io_return_def Let_def asked_def)

lemma strip_nl_SEARCH: "py_strip (nl # ''SEARCH'') = ''SEARCH''"
  by (simp add: py_strip_def isspace_def nl_def)

lemma strip_SEARCH: "py_strip ''SEARCH'' = ''SEARCH''"
  by (simp add: py_strip_def isspace_def)

lemma split_SEARCH: "py_split nl ''SEARCH'' = [''SEARCH'']"
  by (simp add: nl_def)

lemma split_nl_SEARCH: "py_split nl (nl # ''SEARCH'') = [[], ''SEARCH'']"
  by (simp add: nl_def)

lemma strip_empty: "py_strip [] = []"
  by (simp add: py_strip_def)

lemma initial_state_question: "initial_state question ''user_question'' = Some (PStr question)"
  by (simp add: initial_state_def)

text \<open>
  C1 (as amended). The reply of the LLM is first stripped of leading and trailing
  whitespace as a whole; the stripped text is what is split at newlines. Whenever the
  state has a question and the LLM call returns, whatever text it returns (the empty
  string included), the step returns: \<open>needs_search\<close> is true exactly when the first line
  of the stripped text, stripped again, is \<open>SEARCH\<close>; \<open>reasoning\<close> is built from that
  decision and from the second line of the stripped text when it contains a newline,
  from "No reasoning provided" otherwise. Nothing else is checked.
\<close>

theorem decide_search_need_parse:
  assumes "state ''user_question'' = Some q"
    and "llm_reply env (events w) (decision_prompt (py_format q)) = Inr content"
  shows "decide_search_need env state w =
           (Inr (state(''needs_search'' \<mapsto>
                   PBool (py_strip (takeWhile (\<lambda>c. c \<noteq> nl) (py_strip content)) = ''SEARCH''),
                 ''reasoning'' \<mapsto>
                   PStr (''Decision: '' @ py_strip (takeWhile (\<lambda>c. c \<noteq> nl) (py_strip content))
                     @ ''. Reasoning: ''
                     @ (if nl \<in> set (py_strip content)
                        then takeWhile (\<lambda>c. c \<noteq> nl)
                               (tl (dropWhile (\<lambda>c. c \<noteq> nl) (py_strip content)))
                        else ''No reasoning provided'')))),
            asked w [LLMInvoke (decision_prompt (py_format q))])"
  unfolding decide_search_need_result [where state = state and env = env and w = w, OF assms]
  using py_split_more_than_one [of nl "py_strip content"]
    second_py_split [of nl "py_strip content"]
  by (auto simp: hd_py_split)

theorem decide_search_need_parse_witness:
  "decide_search_need (env_says []) (initial_state ''q'') world0 =
     (Inr ((initial_state ''q'')(''needs_search'' \<mapsto> PBool False,
             ''reasoning'' \<mapsto> PStr ''Decision: . Reasoning: No reasoning provided'')),
      asked world0 [LLMInvoke (decision_prompt ''q'')])"
proof -
  have r: "llm_reply (env_says []) (events world0) (decision_prompt (py_format (PStr ''q''))) = Inr []"
    by (simp add: env_says_def)
  show ?thesis
    using decide_search_need_parse
      [where state = "initial_state ''q''" and env = "env_says []" and w = world0,
        OF initial_state_question r]
    by (simp add: strip_empty)
qed

text \<open>
  C1 (as stated) fails: on the reply "\<newline>SEARCH" the first line of the reply is empty, so
  stripped it is not \<open>SEARCH\<close>, and the reply has a second line; yet the step sets
  \<open>needs_search\<close> to true and finds no reasoning.
\<close>

theorem decide_search_need_raw_lines_counterexample:
  "fst (decide_search_need (env_says (nl # ''SEARCH'')) (initial_state ''q'') world0) =
     Inr ((initial_state ''q'')(''needs_search'' \<mapsto> PBool True,
            ''reasoning'' \<mapsto> PStr ''Decision: SEARCH. Reasoning: No reasoning provided''))
   \<and> py_strip (hd (py_split nl (nl # ''SEARCH''))) \<noteq> ''SEARCH''
   \<and> 1 < length (py_split nl (nl # ''SEARCH''))"
proof -
  have r: "llm_reply (env_says (nl # ''SEARCH'')) (events world0)
             (decision_prompt (py_format (PStr ''q''))) = Inr (nl # ''SEARCH'')"
    by (simp add: env_says_def)
  show ?thesis
    unfolding decide_search_need_result
        [where state = "initial_state ''q''" and env = "env_says (nl # ''SEARCH'')" and w = world0,
          OF initial_state_question r]
      strip_nl_SEARCH split_SEARCH split_nl_SEARCH
    by (simp add: strip_SEARCH strip_empty)
qed

section \<open>Claims about the search tool\<close>

text \<open>
  C2. \<open>wikipedia_search\<close> always returns a string, whatever the two HTTP calls do: an
  exception raised anywhere in its body comes back as "Search error: " followed by the
  exception's text, and \<open>execute_search\<close> stores that string in \<open>search_result\<close>.
\<close>

theorem wikipedia_search_total:
  "(\<exists>s. fst (wikipedia_search env query w) = Inr s)
   \<and> (fst (wikipedia_search_body env query w) = Inl e \<longrightarrow>
        fst (wikipedia_search env query w) = Inr (''Search error: '' @ exn_str e)
        \<and> (state ''needs_search'' = Some (PBool True) \<and> state ''user_question'' = Some (PStr query) \<longrightarrow>
             fst (execute_search env state w) =
               Inr (state(''search_result'' \<mapsto> PStr (''Search error: '' @ exn_str e)))))"
  using wikipedia_search_returns [of env query w] wikipedia_search_caught [of env query w e]
    execute_search_stores [of state query env w]
  by auto

theorem wikipedia_search_total_witness:
  "fst (wikipedia_search_body (served timed_out timed_out) ''q'' world0) =
     Inl (PyExn RequestException ''timed out'')
   \<and> fst (wikipedia_search (served timed_out timed_out) ''q'' world0) =
       Inr ''Search error: timed out''
   \<and> fst (execute_search (served timed_out timed_out) searching_state world0) =
       Inr (searching_state(''search_result'' \<mapsto> PStr ''Search error: timed out''))"
proof -
  have b: "fst (wikipedia_search_body (served timed_out timed_out) ''q'' world0) =
             Inl (PyExn RequestException ''timed out'')"
    by (simp add: wikipedia_search_body_def io_bind_def requests_get_def served_def timed_out_def)
  have s: "searching_state ''needs_search'' = Some (PBool True)
           \<and> searching_state ''user_question'' = Some (PStr ''q'')"
    by (simp add: searching_state_def initial_state_def)
  show ?thesis
    using wikipedia_search_total
      [of "served timed_out timed_out" "''q''" world0 "PyExn RequestException ''timed out''"
        searching_state] b s
    by simp
qed

text \<open>
  C5. One call of \<open>wikipedia_search\<close> asks the search API once and the summary endpoint
  at most once, in that order, and nothing else. A first reply with a status other
  than 200 gives "Wikipedia search failed with status " and the code, with no second
  request; an empty result list gives "No Wikipedia articles found for '<query>'",
  with no second request; a second reply with a status other than 200 gives
  "Found '<title>' but couldn't retrieve summary".
\<close>

theorem wikipedia_search_no_retry:
  "(events (snd (wikipedia_search env query w)) = events w @ [search_request query]
    \<or> (\<exists>t. events (snd (wikipedia_search env query w))
             = events w @ [search_request query, summary_request t]))
   \<and> (get_reply env (events w) search_url (search_params query) = Inr resp \<longrightarrow>
        (status_code resp \<noteq> 200 \<longrightarrow>
           wikipedia_search env query w =
             (Inr (''Wikipedia search failed with status '' @ str_int (status_code resp)),
              asked w [search_request query]))
        \<and> (status_code resp = 200 \<and> found_results resp = Inr (JArr []) \<longrightarrow>
             wikipedia_search env query w =
               (Inr (''No Wikipedia articles found for '' @ sq # query @ [sq]),
                asked w [search_request query]))
        \<and> (status_code resp = 200 \<and> found_results resp = Inr results \<and> json_truth results
             \<and> top_title results = Inr (JStr title)
             \<and> get_reply env (events w @ [search_request query])
                  (summary_url (underscored title)) [] = Inr resp2
             \<and> status_code resp2 \<noteq> 200 \<longrightarrow>
             wikipedia_search env query w =
               (Inr (''Found '' @ sq # title @ sq # '' but couldn'' @ sq # ''t retrieve summary''),
                asked w [search_request query, summary_request title])))"
proof -
  have "events (snd (wikipedia_search env query w)) = events w @ [search_request query]
    \<or> (\<exists>t. events (snd (wikipedia_search env query w))
             = events w @ [search_request query, summary_request t])"
    unfolding search_events by (rule body_events)
  moreover have "wikipedia_search env query w =
             (Inr (''Wikipedia search failed with status '' @ str_int (status_code resp)),
              asked w [search_request query])"
    if "get_reply env (events w) search_url (search_params query) = Inr resp"
      and "status_code resp \<noteq> 200"
    using that by (intro search_of_body body_status)
  moreover have "wikipedia_search env query w =
               (Inr (''No Wikipedia articles found for '' @ sq # query @ [sq]),
                asked w [search_request query])"
    if "get_reply env (events w) search_url (search_params query) = Inr resp"
      and "status_code resp = 200" and "found_results resp = Inr (JArr [])"
    using that by (intro search_of_body body_empty [where results = "JArr []"]) simp_all
  moreover have "wikipedia_search env query w =
               (Inr (''Found '' @ sq # title @ sq # '' but couldn'' @ sq # ''t retrieve summary''),
                asked w [search_request query, summary_request title])"
    if "get_reply env (events w) search_url (search_params query) = Inr resp"
      and "status_code resp = 200" and "found_results resp = Inr results" and "json_truth results"
      and "top_title results = Inr (JStr title)"
      and "get_reply env (events w @ [search_request query])
                  (summary_url (underscored title)) [] = Inr resp2"
      and "status_code resp2 \<noteq> 200"
    using that by (intro search_of_body body_summary_status)
  ultimately show ?thesis by blast
qed

theorem wikipedia_search_no_retry_witness:
  "wikipedia_search (served (Inr (json_response 503 JNull)) timed_out) ''q'' world0 =
     (Inr ''Wikipedia search failed with status 503'', asked world0 [search_request ''q''])
   \<and> wikipedia_search (served (Inr (json_response 200 no_results)) timed_out) ''q'' world0 =
     (Inr (''No Wikipedia articles found for '' @ sq # ''q'' @ [sq]),
      asked world0 [search_request ''q''])
   \<and> wikipedia_search (served (Inr (json_response 200 turing_results))
        (Inr (json_response 404 JNull))) ''q'' world0 =
     (Inr (''Found '' @ sq # ''Alan Turing'' @ sq # '' but couldn'' @ sq # ''t retrieve summary''),
      asked world0 [search_request ''q'', summary_request ''Alan Turing''])"
proof -
  have a: "found_results (json_response 200 no_results) = Inr (JArr [])"
    by (simp add: found_results_def json_response_def no_results_def or_raise_def)
  have b: "found_results (json_response 200 turing_results)
            = Inr (JArr [JObj [(''title'', JStr ''Alan Turing'')]])"
    by (simp add: found_results_def json_response_def turing_results_def or_raise_def)
  have c: "top_title (JArr [JObj [(''title'', JStr ''Alan Turing'')]]) = Inr (JStr ''Alan Turing'')"
    by (simp add: top_title_def or_raise_def)
  have d: "summary_url (underscored ''Alan Turing'') \<noteq> search_url"
    by (simp add: summary_url_def search_url_def underscored_def)
  have e: "str_int 503 = ''503''"
    by (simp add: str_int_def str_nat.simps)
  show ?thesis
    using wikipedia_search_no_retry
      [of "served (Inr (json_response 503 JNull)) timed_out" "''q''" world0
        "json_response 503 JNull"]
      wikipedia_search_no_retry
      [of "served (Inr (json_response 200 no_results)) timed_out" "''q''" world0
        "json_response 200 no_results"]
      wikipedia_search_no_retry
      [of "served (Inr (json_response 200 turing_results)) (Inr (json_response 404 JNull))"
        "''q''" world0 "json_response 200 turing_results"
        "JArr [JObj [(''title'', JStr ''Alan Turing'')]]" "''Alan Turing''"
        "json_response 404 JNull"]
      a b c d e
    by (simp add: served_def json_response_def)
qed

text \<open>
  C9. When both replies have status 200, the search list is non-empty, its first entry
  has a text title and the summary body is a JSON object: with a text \<open>extract\<close> the
  result is "Found information about '<title>': ", the first 400 characters of the
  extract at most, and "..."; with no \<open>extract\<close> key, "No summary available" stands in
  its place.
\<close>

theorem wikipedia_search_found:
  assumes "get_reply env (events w) search_url (search_params query) = Inr resp"
    and "status_code resp = 200"
    and "found_results resp = Inr results"
    and "json_truth results"
    and "top_title results = Inr (JStr title)"
    and "get_reply env (events w @ [search_request query]) (summary_url (underscored title)) []
           = Inr resp2"
    and "status_code resp2 = 200"
    and "json_body resp2 = Inr (JObj items)"
  shows "(map_of items ''extract'' = Some (JStr extract) \<longrightarrow>
            fst (wikipedia_search env query w) =
              Inr (''Found information about '' @ sq # title @ sq # '': ''
                   @ take 400 extract @ ''...''))
         \<and> (map_of items ''extract'' = None \<longrightarrow>
            fst (wikipedia_search env query w) =
              Inr (''Found information about '' @ sq # title @ sq # '': ''
                   @ ''No summary available'' @ ''...''))"
proof (intro conjI impI)
  assume "map_of items ''extract'' = Some (JStr extract)"
  then have "py_get (JObj items) ''extract'' (JStr ''No summary available'') = Inr (JStr extract)"
    by simp
  from body_found [OF assms this] show "fst (wikipedia_search env query w) =
              Inr (''Found information about '' @ sq # title @ sq # '': ''
                   @ take 400 extract @ ''...'')"
    by (simp add: search_of_body)
next
  assume "map_of items ''extract'' = None"
  then have "py_get (JObj items) ''extract'' (JStr ''No summary available'')
              = Inr (JStr ''No summary available'')"
    by simp
  from body_found [OF assms this] show "fst (wikipedia_search env query w) =
              Inr (''Found information about '' @ sq # title @ sq # '': ''
                   @ ''No summary available'' @ ''...'')"
    by (simp add: search_of_body)
qed

theorem wikipedia_search_found_witness:
  "fst (wikipedia_search (served (Inr (json_response 200 turing_results))
          (Inr (json_response 200 long_extract))) ''q'' world0) =
     Inr (''Found information about '' @ sq # ''Alan Turing'' @ sq # '': ''
          @ replicate 400 CHR ''a'' @ ''...'')
   \<and> fst (wikipedia_search (served (Inr (json_response 200 turing_results))
          (Inr (json_response 200 no_extract))) ''q'' world0) =
     Inr (''Found information about '' @ sq # ''Alan Turing'' @ sq # '': ''
          @ ''No summary available'' @ ''...'')"
proof -
  have b: "found_results (json_response 200 turing_results)
            = Inr (JArr [JObj [(''title'', JStr ''Alan Turing'')]])"
    by (simp add: found_results_def json_response_def turing_results_def or_raise_def)
  have c: "top_title (JArr [JObj [(''title'', JStr ''Alan Turing'')]]) = Inr (JStr ''Alan Turing'')"
    by (simp add: top_title_def or_raise_def)
  have d: "summary_url (underscored ''Alan Turing'') \<noteq> search_url"
    by (simp add: summary_url_def search_url_def underscored_def)
  have t: "take 400 (replicate 401 CHR ''a'') = replicate 400 CHR ''a''"
    by simp
  show ?thesis
    using wikipedia_search_found
      [of "served (Inr (json_response 200 turing_results)) (Inr (json_response 200 long_extract))"
        world0 "''q''" "json_response 200 turing_results"
        "JArr [JObj [(''title'', JStr ''Alan Turing'')]]" "''Alan Turing''"
        "json_response 200 long_extract"
        "[(''title'', JStr ''Alan Turing''), (''extract'', JStr (replicate 401 CHR ''a''))]"
        "replicate 401 CHR ''a''"]
      wikipedia_search_found
      [of "served (Inr (json_response 200 turing_results)) (Inr (json_response 200 no_extract))"
        world0 "''q''" "json_response 200 turing_results"
        "JArr [JObj [(''title'', JStr ''Alan Turing'')]]" "''Alan Turing''"
        "json_response 200 no_extract"
        "[(''title'', JStr ''Alan Turing'')]"]
      b c d t
    by (simp add: served_def json_response_def long_extract_def no_extract_def)
qed

section \<open>The response step\<close>









lemma response_prompt_result:
  assumes "state ''user_question'' = Some q"
    and "state ''needs_search'' = Some used"
    and "dict_get state ''search_result'' (PStr []) = PStr r"
  shows "response_prompt state =
           Inr (if py_truth used \<and> \<not> py_in ''Search error'' r
                then search_prompt (search_context (py_format q) r)
                else direct_prompt (py_format q))"
  using assms by (simp add: response_prompt_def or_raise_def dict_item_def Let_def)


lemma generate_response_result:
  "response_prompt state = Inr prompt \<Longrightarrow>
   generate_response env state w =
     (case llm_reply env (events w) prompt of
        Inl e \<Rightarrow> Inl e
      | Inr content \<Rightarrow> Inr (state(''final_answer'' \<mapsto> PStr content)),
      asked w [LLMInvoke prompt])"
  by (simp add: generate_response_def io_bind_def io_lift_def llm_invoke_def io_return_def
      asked_def split: sum.splits)



section \<open>What each step writes\<close>

lemma decide_search_need_frame:
  assumes "decide_search_need env state w = (Inr state', w')"
  shows "\<exists>b r. state' = state(''needs_search'' \<mapsto> PBool b, ''reasoning'' \<mapsto> PStr r)"
  using assms
  by (auto simp: decide_search_need_def io_bind_def io_lift_def llm_invoke_def io_return_def
      Let_def split: sum.splits)

lemma execute_search_frame:
  assumes "execute_search env state w = (Inr state', w')"
  shows "\<exists>r. state' = state(''search_result'' \<mapsto> PStr r)"
  using assms
  by (auto simp: execute_search_def io_bind_def io_lift_def io_return_def
      split: sum.splits if_splits prod.splits)

lemma generate_response_frame:
  assumes "generate_response env state w = (Inr state', w')"
  shows "\<exists>a. state' = state(''final_answer'' \<mapsto> PStr a)"
  using assms
  by (auto simp: generate_response_def io_bind_def io_lift_def llm_invoke_def io_return_def
      split: sum.splits)

text \<open>
  C7. A step that returns has written only its own fields: \<open>decide_search_need\<close> only
  \<open>needs_search\<close> and \<open>reasoning\<close>, \<open>execute_search\<close> only \<open>search_result\<close>,
  \<open>generate_response\<close> only \<open>final_answer\<close>; every other key of the state maps to what it
  mapped to before. Run one after the other, the steps leave \<open>user_question\<close> as it
  was given, and what an earlier step wrote is still there at the end.
\<close>

theorem steps_write_own_fields:
  "(decide_search_need env state w = (Inr state', w') \<longrightarrow>
      (\<forall>k. k \<noteq> ''needs_search'' \<and> k \<noteq> ''reasoning'' \<longrightarrow> state' k = state k))
   \<and> (execute_search env state w = (Inr state', w') \<longrightarrow>
      (\<forall>k. k \<noteq> ''search_result'' \<longrightarrow> state' k = state k))
   \<and> (generate_response env state w = (Inr state', w') \<longrightarrow>
      (\<forall>k. k \<noteq> ''final_answer'' \<longrightarrow> state' k = state k))
   \<and> (decide_search_need env state w = (Inr s1, w1)
        \<and> execute_search env s1 w1 = (Inr s2, w2)
        \<and> generate_response env s2 w2 = (Inr s3, w3) \<longrightarrow>
      s3 ''user_question'' = state ''user_question''
      \<and> s3 ''needs_search'' = s1 ''needs_search''
      \<and> s3 ''reasoning'' = s1 ''reasoning''
      \<and> s3 ''search_result'' = s2 ''search_result'')"
proof (intro conjI impI allI)
  fix k
  assume "decide_search_need env state w = (Inr state', w')"
    and "k \<noteq> ''needs_search'' \<and> k \<noteq> ''reasoning''"
  then show "state' k = state k"
    using decide_search_need_frame [of env state w state' w'] by auto
next
  fix k
  assume "execute_search env state w = (Inr state', w')" and "k \<noteq> ''search_result''"
  then show "state' k = state k"
    using execute_search_frame [of env state w state' w'] by auto
next
  fix k
  assume "generate_response env state w = (Inr state', w')" and "k \<noteq> ''final_answer''"
  then show "state' k = state k"
    using generate_response_frame [of env state w state' w'] by auto
next
  assume a: "decide_search_need env state w = (Inr s1, w1)
        \<and> execute_search env s1 w1 = (Inr s2, w2)
        \<and> generate_response env s2 w2 = (Inr s3, w3)"
  from a decide_search_need_frame [of env state w s1 w1]
  obtain b r where 1: "s1 = state(''needs_search'' \<mapsto> PBool b, ''reasoning'' \<mapsto> PStr r)"
    by blast
  from a execute_search_frame [of env s1 w1 s2 w2]
  obtain x where 2: "s2 = s1(''search_result'' \<mapsto> PStr x)" by blast
  from a generate_response_frame [of env s2 w2 s3 w3]
  obtain y where 3: "s3 = s2(''final_answer'' \<mapsto> PStr y)" by blast
  show "s3 ''user_question'' = state ''user_question''" by (simp add: 1 2 3)
  show "s3 ''needs_search'' = s1 ''needs_search''" by (simp add: 2 3)
  show "s3 ''reasoning'' = s1 ''reasoning''" by (simp add: 2 3)
  show "s3 ''search_result'' = s2 ''search_result''" by (simp add: 3)
qed

section \<open>The compiled workflow\<close>

lemma ignores_return: "ignores_node_runs (io_return x)"
  by (simp add: ignores_node_runs_def io_return_def)

lemma ignores_raise: "ignores_node_runs (io_raise e)"
  by (simp add: ignores_node_runs_def io_raise_def)

lemma ignores_lift: "ignores_node_runs (io_lift r)"
  by (simp add: ignores_node_runs_def io_lift_def)

lemma ignores_llm_invoke: "ignores_node_runs (llm_invoke env prompt)"
  by (simp add: ignores_node_runs_def llm_invoke_def)

lemma ignores_requests_get: "ignores_node_runs (requests_get env url params)"
  by (simp add: ignores_node_runs_def requests_get_def)

lemma ignores_bind:
  assumes "ignores_node_runs m" and "\<And>x. ignores_node_runs (k x)"
  shows "ignores_node_runs (io_bind m k)"
  unfolding ignores_node_runs_def
proof (intro allI)
  fix w r
  from assms(1) have m: "m (w\<lparr>node_runs := r\<rparr>) = (fst (m w), (snd (m w))\<lparr>node_runs := r\<rparr>)"
    by (simp add: ignores_node_runs_def)
  show "io_bind m k (w\<lparr>node_runs := r\<rparr>)
          = (fst (io_bind m k w), (snd (io_bind m k w))\<lparr>node_runs := r\<rparr>)"
  proof (cases "fst (m w)")
    case (Inl e)
    then show ?thesis
      by (simp add: io_bind_def m split_beta)
  next
    case (Inr x)
    from assms(2) [of x]
    have "k x ((snd (m w))\<lparr>node_runs := r\<rparr>)
            = (fst (k x (snd (m w))), (snd (k x (snd (m w))))\<lparr>node_runs := r\<rparr>)"
      by (simp add: ignores_node_runs_def)
    with Inr show ?thesis
      by (simp add: io_bind_def m split_beta)
  qed
qed

lemma ignores_try_except:
  assumes "ignores_node_runs m" and "\<And>e. ignores_node_runs (h e)"
  shows "ignores_node_runs (try_except m h)"
  unfolding ignores_node_runs_def
proof (intro allI)
  fix w r
  from assms(1) have m: "m (w\<lparr>node_runs := r\<rparr>) = (fst (m w), (snd (m w))\<lparr>node_runs := r\<rparr>)"
    by (simp add: ignores_node_runs_def)
  show "try_except m h (w\<lparr>node_runs := r\<rparr>)
          = (fst (try_except m h w), (snd (try_except m h w))\<lparr>node_runs := r\<rparr>)"
  proof (cases "fst (m w)")
    case (Inl e)
    from assms(2) [of e]
    have "h e ((snd (m w))\<lparr>node_runs := r\<rparr>)
            = (fst (h e (snd (m w))), (snd (h e (snd (m w))))\<lparr>node_runs := r\<rparr>)"
      by (simp add: ignores_node_runs_def)
    with Inl show ?thesis
      by (simp add: try_except_def m split_beta)
  next
    case (Inr x)
    then show ?thesis
      by (simp add: try_except_def m split_beta)
  qed
qed

lemma ignores_if:
  "ignores_node_runs a \<Longrightarrow> ignores_node_runs b \<Longrightarrow> ignores_node_runs (if c then a else b)"
  by simp

lemmas ignores_intros = ignores_bind ignores_try_except ignores_if ignores_return ignores_raise
  ignores_lift ignores_llm_invoke ignores_requests_get

lemma ignores_wikipedia_search: "ignores_node_runs (wikipedia_search env query)"
  unfolding wikipedia_search_def wikipedia_search_body_def
  by (intro ignores_intros)

lemma ignores_tool_invoke: "ignores_node_runs (tool_invoke env v)"
  by (cases v) (simp_all add: ignores_wikipedia_search ignores_raise)

lemma ignores_decide_search_need: "ignores_node_runs (decide_search_need env state)"
  unfolding decide_search_need_def Let_def
  by (intro ignores_intros)

lemma ignores_execute_search: "ignores_node_runs (execute_search env state)"
  unfolding execute_search_def
  by (intro ignores_intros ignores_tool_invoke)

lemma ignores_generate_response: "ignores_node_runs (generate_response env state)"
  unfolding generate_response_def
  by (intro ignores_intros)

lemma run_from_END: "run_from g budget END state = io_return state"
  by (cases budget) simp_all

lemma io_bind_return: "io_bind m io_return = m"
  by (auto simp: io_bind_def io_return_def split: prod.splits sum.splits)

lemma workflow_nodes:
  "map_of (nodes (workflow env)) ''decide'' = Some (decide_search_need env)"
  "map_of (nodes (workflow env)) ''search'' = Some (execute_search env)"
  "map_of (nodes (workflow env)) ''respond'' = Some (generate_response env)"
  by (simp_all add: workflow_def add_node_def add_edge_def set_entry_point_def StateGraph_def)

lemma workflow_edges:
  "filter (\<lambda>e. fst e = ''decide'') (edges (workflow env)) = [(''decide'', ''search'')]"
  "filter (\<lambda>e. fst e = ''search'') (edges (workflow env)) = [(''search'', ''respond'')]"
  "filter (\<lambda>e. fst e = ''respond'') (edges (workflow env)) = [(''respond'', END)]"
  by (simp_all add: workflow_def add_node_def add_edge_def set_entry_point_def StateGraph_def)

lemma workflow_entry: "entry_point (workflow env) = Some ''decide''"
  by (simp add: workflow_def add_node_def add_edge_def set_entry_point_def StateGraph_def)

lemma not_END: "''decide'' \<noteq> END" "''search'' \<noteq> END" "''respond'' \<noteq> END"
  by (simp_all add: END_def)

lemma run_workflow:
  "run_from (workflow env) (Suc (Suc (Suc budget))) ''decide'' state =
     io_bind (start_node ''decide'') (\<lambda>_.
     io_bind (decide_search_need env state) (\<lambda>state1.
     io_bind (start_node ''search'') (\<lambda>_.
     io_bind (execute_search env state1) (\<lambda>state2.
     io_bind (start_node ''respond'') (\<lambda>_.
     generate_response env state2)))))"
  by (simp add: workflow_nodes workflow_edges not_END run_from_END io_bind_return)

lemma simple_agent_run:
  "simple_agent env state =
     io_bind (start_node ''decide'') (\<lambda>_.
     io_bind (decide_search_need env state) (\<lambda>state1.
     io_bind (start_node ''search'') (\<lambda>_.
     io_bind (execute_search env state1) (\<lambda>state2.
     io_bind (start_node ''respond'') (\<lambda>_.
     generate_response env state2)))))"
proof -
  have r: "recursion_limit = Suc (Suc (Suc 22))"
    by (simp add: recursion_limit_def)
  show ?thesis
    by (simp only: simple_agent_def invoke_def workflow_entry option.case r run_workflow)
qed

lemma simple_agent_unfold:
  "simple_agent env state w =
     (case decide_search_need env state w of
        (Inl e, w1) \<Rightarrow> (Inl e, w1\<lparr>node_runs := node_runs w @ [''decide'']\<rparr>)
      | (Inr state1, w1) \<Rightarrow>
          (case execute_search env state1 w1 of
             (Inl e, w2) \<Rightarrow> (Inl e, w2\<lparr>node_runs := node_runs w @ [''decide'', ''search'']\<rparr>)
           | (Inr state2, w2) \<Rightarrow>
               (fst (generate_response env state2 w2),
                (snd (generate_response env state2 w2))
                  \<lparr>node_runs := node_runs w @ [''decide'', ''search'', ''respond'']\<rparr>)))"
proof -
  obtain rd wd where d: "decide_search_need env state w = (rd, wd)" by fastforce
  have d': "decide_search_need env state (w\<lparr>node_runs := node_runs w @ [''decide'']\<rparr>)
              = (rd, wd\<lparr>node_runs := node_runs w @ [''decide'']\<rparr>)"
    using ignores_decide_search_need [of env state] d by (simp add: ignores_node_runs_def)
  show ?thesis
  proof (cases rd)
    case (Inl e)
    with d d' show ?thesis
      by (simp add: simple_agent_run io_bind_def start_node_def)
  next
    case rd: (Inr state1)
    obtain re we where e: "execute_search env state1 wd = (re, we)" by fastforce
    have e': "execute_search env state1 (wd\<lparr>node_runs := node_runs w @ [''decide'', ''search'']\<rparr>)
                = (re, we\<lparr>node_runs := node_runs w @ [''decide'', ''search'']\<rparr>)"
      using ignores_execute_search [of env state1] e by (simp add: ignores_node_runs_def)
    show ?thesis
    proof (cases re)
      case (Inl e)
      with d d' rd e e' show ?thesis
        by (simp add: simple_agent_run io_bind_def start_node_def)
    next
      case re: (Inr state2)
      have g': "generate_response env state2
                  (we\<lparr>node_runs := node_runs w @ [''decide'', ''search'', ''respond'']\<rparr>)
                = (fst (generate_response env state2 we),
                   (snd (generate_response env state2 we))
                     \<lparr>node_runs := node_runs w @ [''decide'', ''search'', ''respond'']\<rparr>)"
        using ignores_generate_response [of env state2] by (simp add: ignores_node_runs_def)
      from d d' rd e e' re g' show ?thesis
        by (simp add: simple_agent_run io_bind_def start_node_def)
    qed
  qed
qed






lemma execute_search_skips:
  "state ''needs_search'' = Some v \<Longrightarrow> \<not> py_truth v \<Longrightarrow>
   execute_search env state w =
     (Inr (state(''search_result'' \<mapsto> PStr ''No search performed'')), w)"
  by (simp add: execute_search_def io_bind_def io_lift_def dict_item_def io_return_def)

lemma simple_agent_steps:
  "fst (simple_agent env state w) = Inr final \<Longrightarrow>
   \<exists>s1 w1 s2 w2 w3.
     decide_search_need env state w = (Inr s1, w1)
     \<and> execute_search env s1 w1 = (Inr s2, w2)
     \<and> generate_response env s2 w2 = (Inr final, w3)
     \<and> events (snd (simple_agent env state w)) = events w3"
  by (auto simp add: simple_agent_unfold split: prod.splits sum.splits) (metis prod.collapse)


section \<open>The calls of one invocation\<close>





section \<open>Two runs, step by step\<close>

lemma direct_decide:
  "decide_search_need (env_says []) (initial_state ''q'') world0 = (Inr direct_s1, direct_w1)"
proof -
  have r: "llm_reply (env_says []) (events world0) (decision_prompt (py_format (PStr ''q''))) = Inr []"
    by (simp add: env_says_def)
  show ?thesis
    unfolding decide_search_need_result
        [where state = "initial_state ''q''" and env = "env_says []" and w = world0,
          OF initial_state_question r]
    by (simp add: strip_empty direct_s1_def direct_w1_def)
qed

lemma direct_search: "execute_search env direct_s1 direct_w1 = (Inr direct_s2, direct_w1)"
proof -
  have "direct_s1 ''needs_search'' = Some (PBool False)"
    by (simp add: direct_s1_def)
  from execute_search_skips [of direct_s1 "PBool False" env direct_w1, OF this] show ?thesis
    by (simp add: direct_s2_def)
qed

lemma direct_respond:
  "generate_response (env_says []) direct_s2 direct_w1 = (Inr direct_s3, direct_w3)"
proof -
  have "direct_s2 ''user_question'' = Some (PStr ''q'')"
    and "direct_s2 ''needs_search'' = Some (PBool False)"
    and "dict_get direct_s2 ''search_result'' (PStr []) = PStr ''No search performed''"
    by (simp_all add: direct_s2_def direct_s1_def initial_state_def dict_get_def)
  from response_prompt_result [OF this]
  have "response_prompt direct_s2 = Inr (direct_prompt ''q'')" by simp
  from generate_response_result [OF this, of "env_says []" direct_w1] show ?thesis
    by (simp add: env_says_def direct_s3_def direct_w3_def)
qed

lemma direct_run:
  "simple_agent (env_says []) (initial_state ''q'') world0 =
     (Inr direct_s3, direct_w3\<lparr>node_runs := [''decide'', ''search'', ''respond'']\<rparr>)"
proof -
  have "node_runs world0 = []" by (simp add: world0_def)
  then show ?thesis
    unfolding simple_agent_unfold direct_decide by (simp add: direct_search direct_respond)
qed
















section \<open>Claims about whole invocations\<close>





text \<open>The same run, for C7: what each step left untouched.\<close>

theorem steps_write_own_fields_witness:
  "direct_s1 ''user_question'' = Some (PStr ''q'')
   \<and> direct_s2 ''reasoning'' = direct_s1 ''reasoning''
   \<and> direct_s3 ''search_result'' = direct_s2 ''search_result''
   \<and> direct_s3 ''needs_search'' = direct_s1 ''needs_search''
   \<and> direct_s3 ''user_question'' = Some (PStr ''q'')"
proof -
  note d = direct_decide and s = direct_search [of "env_says []"] and g = direct_respond
  from steps_write_own_fields
    [of "env_says []" "initial_state ''q''" world0 direct_s1 direct_w1
      direct_s1 direct_w1 direct_s2 direct_w1 direct_s3 direct_w3] d s g
  have 1: "\<forall>k. k \<noteq> ''needs_search'' \<and> k \<noteq> ''reasoning'' \<longrightarrow> direct_s1 k = initial_state ''q'' k"
    and 4: "direct_s3 ''user_question'' = initial_state ''q'' ''user_question''
            \<and> direct_s3 ''needs_search'' = direct_s1 ''needs_search''"
    by simp_all
  from steps_write_own_fields
    [of "env_says []" direct_s1 direct_w1 direct_s2 direct_w1] s
  have 2: "\<forall>k. k \<noteq> ''search_result'' \<longrightarrow> direct_s2 k = direct_s1 k"
    by simp
  from steps_write_own_fields
    [of "env_says []" direct_s2 direct_w1 direct_s3 direct_w3] g
  have 3: "\<forall>k. k \<noteq> ''final_answer'' \<longrightarrow> direct_s3 k = direct_s2 k"
    by simp
  from 1 have "direct_s1 ''user_question'' = initial_state ''q'' ''user_question''" by simp
  moreover from 2 have "direct_s2 ''reasoning'' = direct_s1 ''reasoning''" by simp
  moreover from 3 have "direct_s3 ''search_result'' = direct_s2 ''search_result''" by simp
  ultimately show ?thesis using 4 by (simp add: initial_state_question)
qed

section \<open>The shape of the state\<close>

lemma AgentState_needs_search:
  "AgentState state \<Longrightarrow> AgentState (state(''needs_search'' \<mapsto> PBool b))"
  by (auto simp: AgentState_def)

lemma AgentState_reasoning:
  "AgentState state \<Longrightarrow> AgentState (state(''reasoning'' \<mapsto> PStr r))"
  by (auto simp: AgentState_def)

lemma AgentState_search_result:
  "AgentState state \<Longrightarrow> AgentState (state(''search_result'' \<mapsto> PStr r))"
  by (auto simp: AgentState_def)

lemma AgentState_final_answer:
  "AgentState state \<Longrightarrow> AgentState (state(''final_answer'' \<mapsto> PStr a))"
  by (auto simp: AgentState_def)

lemma AgentState_initial: "AgentState (initial_state question)"
  by (auto simp: AgentState_def initial_state_def)

lemma AgentState_dom: "AgentState state \<Longrightarrow> AgentState state' \<Longrightarrow> dom state' = dom state"
  by (simp add: AgentState_def)

lemma decide_search_need_schema:
  assumes "AgentState state" and "fst (decide_search_need env state w) = Inr state'"
  shows "AgentState state'"
proof -
  from assms(2) have "decide_search_need env state w = (Inr state', snd (decide_search_need env state w))"
    by (metis prod.collapse)
  from decide_search_need_frame [OF this] assms(1) show ?thesis
    by (auto intro: AgentState_needs_search AgentState_reasoning)
qed

lemma execute_search_schema:
  assumes "AgentState state" and "fst (execute_search env state w) = Inr state'"
  shows "AgentState state'"
proof -
  from assms(2) have "execute_search env state w = (Inr state', snd (execute_search env state w))"
    by (metis prod.collapse)
  from execute_search_frame [OF this] assms(1) show ?thesis
    by (auto intro: AgentState_search_result)
qed

lemma generate_response_schema:
  assumes "AgentState state" and "fst (generate_response env state w) = Inr state'"
  shows "AgentState state'"
proof -
  from assms(2) have "generate_response env state w = (Inr state', snd (generate_response env state w))"
    by (metis prod.collapse)
  from generate_response_frame [OF this] assms(1) show ?thesis
    by (auto intro: AgentState_final_answer)
qed

lemma simple_agent_schema:
  assumes "AgentState state" and "fst (simple_agent env state w) = Inr state'"
  shows "AgentState state'"
proof -
  from simple_agent_steps [OF assms(2)] obtain s1 w1 s2 w2 w3 where
    d: "decide_search_need env state w = (Inr s1, w1)"
    and e: "execute_search env s1 w1 = (Inr s2, w2)"
    and g: "generate_response env s2 w2 = (Inr state', w3)"
    by blast
  from d assms(1) have "AgentState s1"
    using decide_search_need_schema [of state env w s1] by simp
  with e have "AgentState s2"
    using execute_search_schema [of s1 env w1 s2] by simp
  with g show ?thesis
    using generate_response_schema [of s2 env w2 state'] by simp
qed

text \<open>
  C8. The state is a dict with exactly the five keys \<open>user_question\<close>, \<open>needs_search\<close>,
  \<open>search_result\<close>, \<open>final_answer\<close>, \<open>reasoning\<close>, the second a \<open>bool\<close> and the others
  \<open>str\<close>. The state an invocation starts from has this shape, and every step that
  returns, and so the whole workflow, maps a state of this shape to a state of this
  shape with the same keys: none is added, none removed. A step receives nothing but
  this state, and gives nothing else back.
\<close>

theorem steps_preserve_schema:
  "AgentState (initial_state question)
   \<and> (AgentState state \<longrightarrow>
        (fst (decide_search_need env state w) = Inr state' \<longrightarrow>
           AgentState state' \<and> dom state' = dom state)
        \<and> (fst (execute_search env state w) = Inr state' \<longrightarrow>
           AgentState state' \<and> dom state' = dom state)
        \<and> (fst (generate_response env state w) = Inr state' \<longrightarrow>
           AgentState state' \<and> dom state' = dom state)
        \<and> (fst (simple_agent env state w) = Inr state' \<longrightarrow>
           AgentState state' \<and> dom state' = dom state))"
  using AgentState_initial [of question]
    decide_search_need_schema [of state env w state']
    execute_search_schema [of state env w state']
    generate_response_schema [of state env w state']
    simple_agent_schema [of state env w state']
    AgentState_dom [of state state']
  by blast

theorem steps_preserve_schema_witness:
  "AgentState (initial_state ''q'') \<and> AgentState direct_s1 \<and> AgentState direct_s3
   \<and> dom direct_s3 = dom (initial_state ''q'')"
proof -
  have d: "fst (decide_search_need (env_says []) (initial_state ''q'') world0) = Inr direct_s1"
    by (simp add: direct_decide)
  have r: "fst (simple_agent (env_says []) (initial_state ''q'') world0) = Inr direct_s3"
    by (simp add: direct_run)
  from steps_preserve_schema [of "''q''" "initial_state ''q''" "env_says []" world0 direct_s1] d
    steps_preserve_schema [of "''q''" "initial_state ''q''" "env_says []" world0 direct_s3] r
  show ?thesis by blast
qed

section \<open>The browser-automation example: what it asks\<close>

lemmas count_defs = http_posts_def tasks_def form_interactions_def

lemma create_session_events:
  "events (snd (create_session cloud w)) = events w @ [HttpPost session_url payload headers]"
  by (simp add: create_session_def io_bind_def io_lift_def requests_post_def io_return_def
      split: sum.splits)

lemma connect_cases:
  "(\<exists>e. connect_over_cdp cloud cs w = (Inl e, w))
   \<or> (\<exists>s r. cs = JStr s \<and> connect_over_cdp cloud cs w = (r, asked w [ConnectOverCDP s]))"
  by (cases cs) (simp_all add: io_raise_def asked_def)

lemma form_automation_events:
  "\<exists>new. events (snd (form_automation cloud cs w)) = events w @ new
     \<and> http_posts new = 0 \<and> tasks new \<le> 1 \<and> form_interactions new = 0
     \<and> (\<forall>r. fst (form_automation cloud cs w) = Inr r \<longrightarrow>
          tasks new = 1
          \<and> last new = WorkerEvaluate ai_agent_url (json_dumps cloud (JObj task_configuration)))"
proof -
  from connect_cases [of cloud cs w] consider
    (bad) e where "connect_over_cdp cloud cs w = (Inl e, w)"
    | (asked) s r where "cs = JStr s"
        "connect_over_cdp cloud cs w = (r, asked w [ConnectOverCDP s])"
    by blast
  then show ?thesis
  proof cases
    case bad
    then show ?thesis
      by (simp add: form_automation_def io_bind_def count_defs)
  next
    case asked
    then show ?thesis
      by (cases r)
        (auto simp add: form_automation_def io_bind_def io_lift_def io_raise_def io_return_def
          first_item_def new_page_def page_goto_def worker_evaluate_def asked_def count_defs
          find_Some_iff
          split: sum.splits option.splits list.splits)
  qed
qed

lemma worker_missing:
  assumes "cdp_reply cloud (events w) endpoint = Inr (context # others)"
    and "ai_agent_url \<notin> set (service_workers context)"
  shows "form_automation cloud (JStr endpoint) w =
           (Inl (PyExn Exception ''AI agent not found in browser context''),
            asked w [ConnectOverCDP endpoint])"
proof -
  from assms(2) have "find (\<lambda>sw. sw = ai_agent_url) (service_workers context) = None"
    by (auto simp: find_None_iff)
  with assms(1) show ?thesis
    by (simp add: form_automation_def io_bind_def io_lift_def io_raise_def first_item_def asked_def)
qed

lemma one_prompt:
  "map_of task_configuration ''prompt'' = Some (JStr task_prompt)
   \<and> length (filter (\<lambda>kv. fst kv = ''prompt'') task_configuration) = 1"
  by (simp add: task_configuration_def)

lemma browser_example_events:
  "\<exists>new. events (snd (browser_example cloud w)) = events w @ new
     \<and> http_posts new = 1 \<and> hd new = HttpPost session_url payload headers
     \<and> tasks new \<le> 1 \<and> form_interactions new = 0
     \<and> (\<forall>r. fst (browser_example cloud w) = Inr r \<longrightarrow>
          tasks new = 1
          \<and> last new = WorkerEvaluate ai_agent_url (json_dumps cloud (JObj task_configuration)))"
proof -
  let ?post = "HttpPost session_url payload headers"
  obtain rc wc where c: "create_session cloud w = (rc, wc)" by fastforce
  with create_session_events [of cloud w] have wc: "events wc = events w @ [?post]" by simp
  show ?thesis
  proof (cases rc)
    case (Inl e)
    with c have "browser_example cloud w = (Inl e, wc)"
      by (simp add: browser_example_def io_bind_def)
    with wc have "events (snd (browser_example cloud w)) = events w @ [?post]
     \<and> http_posts [?post] = 1 \<and> hd [?post] = ?post
     \<and> tasks [?post] \<le> 1 \<and> form_interactions [?post] = 0
     \<and> (\<forall>r. fst (browser_example cloud w) = Inr r \<longrightarrow>
          tasks [?post] = 1
          \<and> last [?post] = WorkerEvaluate ai_agent_url (json_dumps cloud (JObj task_configuration)))"
      by (simp add: count_defs)
    then show ?thesis by (rule exI)
  next
    case (Inr cs)
    with c have b: "browser_example cloud w = form_automation cloud cs wc"
      by (simp add: browser_example_def io_bind_def)
    from form_automation_events [of cloud cs wc] obtain new where
      n: "events (snd (form_automation cloud cs wc)) = events wc @ new"
      "http_posts new = 0" "tasks new \<le> 1" "form_interactions new = 0"
      "\<forall>r. fst (form_automation cloud cs wc) = Inr r \<longrightarrow>
          tasks new = 1
          \<and> last new = WorkerEvaluate ai_agent_url (json_dumps cloud (JObj task_configuration))"
      by blast
    have t: "tasks new = 1 \<Longrightarrow> new \<noteq> []"
      by (auto simp: tasks_def)
    from n wc b t have "events (snd (browser_example cloud w)) = events w @ (?post # new)
     \<and> http_posts (?post # new) = 1 \<and> hd (?post # new) = ?post
     \<and> tasks (?post # new) \<le> 1 \<and> form_interactions (?post # new) = 0
     \<and> (\<forall>r. fst (browser_example cloud w) = Inr r \<longrightarrow>
          tasks (?post # new) = 1
          \<and> last (?post # new)
              = WorkerEvaluate ai_agent_url (json_dumps cloud (JObj task_configuration)))"
      by (auto simp add: count_defs)
    then show ?thesis by (rule exI)
  qed
qed

lemma browser_example_worker_missing:
  assumes "create_session cloud w = (Inr (JStr endpoint), w1)"
    and "cdp_reply cloud (events w1) endpoint = Inr (context # others)"
    and "ai_agent_url \<notin> set (service_workers context)"
  shows "browser_example cloud w =
           (Inl (PyExn Exception ''AI agent not found in browser context''),
            asked w1 [ConnectOverCDP endpoint])"
proof -
  from assms(1) have "browser_example cloud w = form_automation cloud (JStr endpoint) w1"
    by (simp add: browser_example_def io_bind_def)
  with worker_missing [OF assms(2,3)] show ?thesis by simp
qed

lemma browser_example_worker_missing_tasks:
  assumes "create_session cloud w = (Inr (JStr endpoint), w1)"
    and "cdp_reply cloud (events w1) endpoint = Inr (context # others)"
    and "ai_agent_url \<notin> set (service_workers context)"
  shows "tasks (events (snd (browser_example cloud w))) = tasks (events w)"
proof -
  from create_session_events [of cloud w] assms(1)
  have "events w1 = events w @ [HttpPost session_url payload headers]" by simp
  with browser_example_worker_missing [OF assms] show ?thesis
    by (simp add: asked_def tasks_def)
qed

text \<open>
  C10. Every run of the browser-automation example makes exactly one HTTP POST, the
  session creation, as its first call, at most one task submission to the AI agent,
  and no form-field interaction of its own. A run that completes has made exactly one
  task submission, as its last call, passing the JSON serialisation of one
  configuration, which holds one prompt string. When the session is created and the
  browser context has no service worker at the agent's URL, the run raises "AI agent
  not found in browser context" and no task has been submitted.
\<close>

theorem browser_example_calls:
  "(\<exists>new. events (snd (browser_example cloud w)) = events w @ new
      \<and> http_posts new = 1 \<and> hd new = HttpPost session_url payload headers
      \<and> tasks new \<le> 1 \<and> form_interactions new = 0
      \<and> (fst (browser_example cloud w) = Inr result \<longrightarrow>
            tasks new = 1
            \<and> last new = WorkerEvaluate ai_agent_url (json_dumps cloud (JObj task_configuration))))
   \<and> map_of task_configuration ''prompt'' = Some (JStr task_prompt)
   \<and> length (filter (\<lambda>kv. fst kv = ''prompt'') task_configuration) = 1
   \<and> (create_session cloud w = (Inr (JStr endpoint), w1)
       \<and> cdp_reply cloud (events w1) endpoint = Inr (context # others)
       \<and> ai_agent_url \<notin> set (service_workers context) \<longrightarrow>
         fst (browser_example cloud w)
           = Inl (PyExn Exception ''AI agent not found in browser context'')
         \<and> tasks (events (snd (browser_example cloud w))) = tasks (events w))"
proof (intro conjI impI)
  from browser_example_events [of cloud w]
  show "\<exists>new. events (snd (browser_example cloud w)) = events w @ new
      \<and> http_posts new = 1 \<and> hd new = HttpPost session_url payload headers
      \<and> tasks new \<le> 1 \<and> form_interactions new = 0
      \<and> (fst (browser_example cloud w) = Inr result \<longrightarrow>
            tasks new = 1
            \<and> last new = WorkerEvaluate ai_agent_url (json_dumps cloud (JObj task_configuration)))"
    by blast
  show "map_of task_configuration ''prompt'' = Some (JStr task_prompt)"
    and "length (filter (\<lambda>kv. fst kv = ''prompt'') task_configuration) = 1"
    using one_prompt by simp_all
next
  assume a: "create_session cloud w = (Inr (JStr endpoint), w1)
       \<and> cdp_reply cloud (events w1) endpoint = Inr (context # others)
       \<and> ai_agent_url \<notin> set (service_workers context)"
  then show "fst (browser_example cloud w)
           = Inl (PyExn Exception ''AI agent not found in browser context'')"
    using browser_example_worker_missing [of cloud w endpoint w1 "context" others] by simp
  from a show "tasks (events (snd (browser_example cloud w))) = tasks (events w)"
    using browser_example_worker_missing_tasks [of cloud w endpoint w1 "context" others] by simp
qed

lemma create_session_cloud_with:
  "create_session (cloud_with workers) world0 = (Inr (JStr ''wss://connect''), session_world)"
  by (simp add: create_session_def io_bind_def io_lift_def requests_post_def io_return_def
      cloud_with_def json_response_def session_json_def session_world_def asked_def)

lemma browser_example_with_agent:
  "fst (browser_example (cloud_with [ai_agent_url]) world0) = Inr (JStr ''done'')"
proof -
  have "form_automation (cloud_with [ai_agent_url]) (JStr ''wss://connect'') session_world
          = (Inr (JStr ''done''),
             asked session_world
               [ConnectOverCDP ''wss://connect'', PageGoto resume_url,
                WorkerEvaluate ai_agent_url ''{}''])"
    by (simp add: form_automation_def io_bind_def io_lift_def first_item_def io_return_def
        page_goto_def worker_evaluate_def cloud_with_def asked_def)
  then show ?thesis
    unfolding browser_example_def io_bind_def create_session_cloud_with by simp
qed

theorem browser_example_calls_witness:
  "fst (browser_example (cloud_with [ai_agent_url]) world0) = Inr (JStr ''done'')
   \<and> tasks (events (snd (browser_example (cloud_with [ai_agent_url]) world0))) = 1
   \<and> http_posts (events (snd (browser_example (cloud_with [ai_agent_url]) world0))) = 1
   \<and> fst (browser_example (cloud_with []) world0)
       = Inl (PyExn Exception ''AI agent not found in browser context'')
   \<and> tasks (events (snd (browser_example (cloud_with []) world0))) = 0"
proof -
  have e: "events world0 = []" by (simp add: world0_def)
  from browser_example_calls [of "cloud_with [ai_agent_url]" world0 "JStr ''done''"]
    browser_example_with_agent e
  have 1: "tasks (events (snd (browser_example (cloud_with [ai_agent_url]) world0))) = 1
           \<and> http_posts (events (snd (browser_example (cloud_with [ai_agent_url]) world0))) = 1"
    by auto
  have c: "cdp_reply (cloud_with []) (events session_world) ''wss://connect''
             = Inr (\<lparr>service_workers = [], pages = [0]\<rparr> # [])"
    by (simp add: cloud_with_def)
  from browser_example_calls
    [of "cloud_with []" world0 _ "''wss://connect''" session_world
      "\<lparr>service_workers = [], pages = [0]\<rparr>" "[]"]
    create_session_cloud_with [of "[]"] c e
  have 2: "fst (browser_example (cloud_with []) world0)
             = Inl (PyExn Exception ''AI agent not found in browser context'')
           \<and> tasks (events (snd (browser_example (cloud_with []) world0))) = 0"
    by (simp add: tasks_def)
  from 1 2 browser_example_with_agent show ?thesis by simp
qed

end
